theory Spec2Isabelle
  imports Main "HOL-Library.Char_ord" "HOL-Library.List_Lexorder"
begin

section \<open>PyGUIde: the DependencyManager of src/PyGUIde.py\<close>

text \<open>
  The class \<^verbatim>\<open>DependencyManager\<close> (lines 79 to 269 of the source) is embedded
  function by function. Python strings are \<open>string\<close>; sorting uses the lexicographic
  order on character codes, which is the order of Python's \<^verbatim>\<open>sorted\<close> on strings.
  Everything the class asks of the interpreter and of the operating system (the module
  finder, the file system, subprocesses, \<^verbatim>\<open>os.path.join\<close>, the JSON and AST
  parsers) is a field of the record \<open>host\<close>, so every theorem holds for all hosts.
\<close>

subsection \<open>Strings\<close>

definition is_upper :: "char \<Rightarrow> bool" where
  "is_upper c = (let n = (of_char c :: nat) in 65 \<le> n \<and> n \<le> 90)"

definition is_lower :: "char \<Rightarrow> bool" where
  "is_lower c = (let n = (of_char c :: nat) in 97 \<le> n \<and> n \<le> 122)"

definition is_digit :: "char \<Rightarrow> bool" where
  "is_digit c = (let n = (of_char c :: nat) in 48 \<le> n \<and> n \<le> 57)"

text \<open>
  \<^verbatim>\<open>str.lower()\<close> on a string of ASCII characters: the letters A to Z are shifted, every
  other character stays. The model applies \<open>lower\<close> to ASCII strings only. Line 224 lowers
  an import name after \<open>is_standard_library\<close> has returned False, hence after the name
  has matched the ASCII pattern below (lemmas \<open>valid_module_name_ascii\<close> and
  \<open>not_stdlib_str_lower\<close>); line 144 lowers the names pip prints, which nothing restricts
  to ASCII, through \<open>str_lower\<close> below.
\<close>

definition lower_char :: "char \<Rightarrow> char" where
  "lower_char c = (if is_upper c then char_of (of_char c + (32::nat)) else c)"

definition lower :: "string \<Rightarrow> string" where
  "lower s = map lower_char s"

text \<open>\<^verbatim>\<open>sub in s\<close> for strings: \<open>sub\<close> occurs as a contiguous slice of \<open>s\<close>.\<close>

fun contains :: "string \<Rightarrow> string \<Rightarrow> bool" where
  "contains sub [] = (sub = [])"
| "contains sub (c # cs) = (take (length sub) (c # cs) = sub \<or> contains sub cs)"

text \<open>\<^verbatim>\<open>s.split(sep)\<close> for a one-character separator.\<close>

fun split_on :: "char \<Rightarrow> string \<Rightarrow> string list" where
  "split_on sep [] = [[]]"
| "split_on sep (c # cs) =
     (if c = sep then [] # split_on sep cs
      else (let ps = split_on sep cs in (c # hd ps) # tl ps))"

subsection \<open>Exceptions and the host\<close>

datatype py_exn =
    OSError
  | CalledProcessError int string string
  | JSONDecodeError
  | TypeError
  | KeyError
  | AttributeError
  | Exception string

text \<open>What \<^verbatim>\<open>importlib.util.find_spec\<close> does: it raises one of the exceptions the
  source catches, returns None, or returns a spec whose origin is None or a string.\<close>

datatype find_spec_result = FindRaises | FindNone | FindSpec "string option"

text \<open>\<^verbatim>\<open>subprocess.run(..., capture_output=True)\<close>: the process cannot be started, or it
  completes with a return code, its standard output and its standard error.\<close>

datatype run_result = RunFault | Completed int string string

text \<open>\<^verbatim>\<open>subprocess.Popen\<close> with the output piped: the process cannot be started, or it
  prints lines and exits with a return code.\<close>

datatype popen_result = PopenFault | Streamed "string list" int

text \<open>The values \<^verbatim>\<open>json.loads\<close> returns.\<close>

datatype json =
    JNull
  | JBool bool
  | JNum string
  | JStr string
  | JArr "json list"
  | JObj "(string \<times> json) list"

text \<open>The nodes \<^verbatim>\<open>ast.walk\<close> visits: the two import statements with the names of their
  aliases (and, for a from-import, the module and the level), an alias, and any other node
  with its child nodes.\<close>

datatype node =
    Import "string list"
  | ImportFrom "string option" "string list" nat
  | Alias string
  | Other "node list"

record filesystem =
  isdir :: "string \<Rightarrow> bool"
  exists :: "string \<Rightarrow> bool"

record host =
  os_name :: string
  sys_executable :: string
  builtin_module_names :: "string list"
  find_spec :: "string \<Rightarrow> find_spec_result"
  path_join :: "string \<Rightarrow> string \<Rightarrow> string"
  subprocess_run :: "string list \<Rightarrow> run_result"
  subprocess_Popen :: "string list \<Rightarrow> popen_result"
  json_loads :: "string \<Rightarrow> json option"
  read_file :: "string \<Rightarrow> string option"
  ast_parse :: "string \<Rightarrow> node option"
  venv_create :: "filesystem \<Rightarrow> string \<Rightarrow> py_exn option \<times> filesystem"
  exn_text :: "py_exn \<Rightarrow> string"
  unicode_lower :: "string \<Rightarrow> string"

record dependency_manager =
  project_path :: "string option"
  venv_path :: "string option"
  python_executable :: string

subsection \<open>is\_standard\_library (lines 170 to 203)\<close>

definition is_name_start :: "char \<Rightarrow> bool" where
  "is_name_start c = (is_lower c \<or> is_upper c \<or> c = CHR ''_'')"

definition is_name_char :: "char \<Rightarrow> bool" where
  "is_name_char c = (is_lower c \<or> is_upper c \<or> is_digit c \<or> c = CHR ''_'')"

text \<open>
  \<^verbatim>\<open>re.match(r'^[a-zA-Z_][a-zA-Z0-9_]*$', module_name)\<close>. In Python \<^verbatim>\<open>$\<close> matches at
  the end of the string and also just before a newline that ends the string, so after the
  longest run of name characters either nothing or one newline may remain.
\<close>

definition valid_module_name :: "string \<Rightarrow> bool" where
  "valid_module_name s =
     (case s of
        [] \<Rightarrow> False
      | c # cs \<Rightarrow> is_name_start c \<and>
          (let rest = dropWhile is_name_char cs in rest = [] \<or> rest = [CHR 0x0A]))"

definition is_standard_library :: "host \<Rightarrow> string \<Rightarrow> bool" where
  "is_standard_library h module_name =
     (if \<not> valid_module_name module_name then True
      else if module_name \<in> set (builtin_module_names h) then True
      else (case find_spec h module_name of
              FindRaises \<Rightarrow> False
            | FindNone \<Rightarrow> False
            | FindSpec origin \<Rightarrow>
                (case origin of
                   None \<Rightarrow> True
                 | Some p \<Rightarrow>
                     if p = ''built-in'' then True
                     else \<not> contains ''site-packages'' p \<and> \<not> contains ''dist-packages'' p)))"

subsection \<open>get\_installed\_packages (lines 133 to 146)\<close>

text \<open>\<^verbatim>\<open>d[k]\<close> on the dict built from a JSON object: the last pair with the key wins.\<close>

definition dict_get :: "(string \<times> json) list \<Rightarrow> string \<Rightarrow> json option" where
  "dict_get kvs k = map_of (rev kvs) k"

text \<open>\<^verbatim>\<open>pkg[key]\<close> for a string key: only a dict can be indexed by a string.\<close>

definition subscript :: "json \<Rightarrow> string \<Rightarrow> py_exn + json" where
  "subscript pkg key =
     (case pkg of
        JObj kvs \<Rightarrow> (case dict_get kvs key of None \<Rightarrow> Inl KeyError | Some v \<Rightarrow> Inr v)
      | _ \<Rightarrow> Inl TypeError)"

text \<open>\<^verbatim>\<open>for pkg in packages\<close>: a list yields its items, a dict its keys (each once,
  in insertion order), a string its characters; nothing else can be iterated.\<close>

definition py_iter :: "json \<Rightarrow> py_exn + json list" where
  "py_iter packages =
     (case packages of
        JArr items \<Rightarrow> Inr items
      | JObj kvs \<Rightarrow> Inr (map JStr (rev (remdups (rev (map fst kvs)))))
      | JStr s \<Rightarrow> Inr (map (\<lambda>c. JStr [c]) s)
      | _ \<Rightarrow> Inl TypeError)"

text \<open>
  \<^verbatim>\<open>str.lower()\<close> on any string. A string is the UTF-8 bytes of a Python string, so it
  is ASCII when every byte is below 128. On an ASCII string \<^verbatim>\<open>str.lower()\<close> shifts the
  letters A to Z and nothing else; any other string is lowered with the Unicode tables of
  the interpreter, the field \<open>unicode_lower\<close> of the host.
\<close>

definition is_ascii :: "string \<Rightarrow> bool" where
  "is_ascii s = list_all (\<lambda>c. (of_char c :: nat) < 128) s"

definition str_lower :: "host \<Rightarrow> string \<Rightarrow> string" where
  "str_lower h s = (if is_ascii s then lower s else unicode_lower h s)"

text \<open>One step of the dict comprehension \<^verbatim>\<open>{pkg['name'].lower(): pkg['version'] ...}\<close>.\<close>

definition package_entry :: "host \<Rightarrow> json \<Rightarrow> py_exn + (string \<times> json)" where
  "package_entry h pkg =
     (case subscript pkg ''name'' of
        Inl e \<Rightarrow> Inl e
      | Inr name \<Rightarrow>
          (case name of
             JStr n \<Rightarrow>
               (case subscript pkg ''version'' of
                  Inl e \<Rightarrow> Inl e
                | Inr version \<Rightarrow> Inr (str_lower h n, version))
           | _ \<Rightarrow> Inl AttributeError))"

fun build_packages ::
  "host \<Rightarrow> json list \<Rightarrow> (string \<rightharpoonup> json) \<Rightarrow> py_exn + (string \<rightharpoonup> json)" where
  "build_packages h [] d = Inr d"
| "build_packages h (pkg # rest) d =
     (case package_entry h pkg of
        Inl e \<Rightarrow> Inl e
      | Inr (k, v) \<Rightarrow> build_packages h rest (d(k \<mapsto> v)))"

text \<open>The body of the \<^verbatim>\<open>try\<close>: \<open>check=True\<close> turns a non-zero return code into
  CalledProcessError.\<close>

definition get_installed_packages_try :: "host \<Rightarrow> dependency_manager \<Rightarrow> py_exn + (string \<rightharpoonup> json)" where
  "get_installed_packages_try h dm =
     (case subprocess_run h [python_executable dm, ''-m'', ''pip'', ''list'', ''--format=json''] of
        RunFault \<Rightarrow> Inl OSError
      | Completed rc out err \<Rightarrow>
          if rc \<noteq> 0 then Inl (CalledProcessError rc out err)
          else (case json_loads h out of
                  None \<Rightarrow> Inl JSONDecodeError
                | Some packages \<Rightarrow>
                    (case py_iter packages of
                       Inl e \<Rightarrow> Inl e
                     | Inr items \<Rightarrow> build_packages h items Map.empty)))"

text \<open>\<^verbatim>\<open>except Exception: return {}\<close>: every exception of the body is an Exception.\<close>

definition get_installed_packages :: "host \<Rightarrow> dependency_manager \<Rightarrow> (string \<rightharpoonup> json)" where
  "get_installed_packages h dm =
     (case get_installed_packages_try h dm of
        Inl e \<Rightarrow> Map.empty
      | Inr d \<Rightarrow> d)"

subsection \<open>get\_missing\_packages (lines 205 to 232)\<close>

definition import_to_package_map :: "(string \<times> string) list" where
  "import_to_package_map =
     [(''pil'', ''pillow''),
      (''yaml'', ''pyyaml''),
      (''cv2'', ''opencv-python''),
      (''skimage'', ''scikit-image''),
      (''sklearn'', ''scikit-learn''),
      (''bs4'', ''beautifulsoup4'')]"

text \<open>\<^verbatim>\<open>import_to_package_map.get(key, default)\<close>.\<close>

definition alias_get :: "string \<Rightarrow> string \<Rightarrow> string" where
  "alias_get key dflt =
     (case map_of import_to_package_map key of None \<Rightarrow> dflt | Some v \<Rightarrow> v)"

definition package_name :: "string \<Rightarrow> string" where
  "package_name imp = (let imp_lower = lower imp in alias_get imp_lower imp_lower)"

definition install_name :: "string \<Rightarrow> string" where
  "install_name imp = (let imp_lower = lower imp in alias_get imp_lower imp)"

text \<open>The body of the loop over \<open>imports\<close>, on the set \<open>missing\<close>.\<close>

definition missing_step :: "host \<Rightarrow> (string \<rightharpoonup> json) \<Rightarrow> string \<Rightarrow> string set \<Rightarrow> string set" where
  "missing_step h installed imp missing =
     (if is_standard_library h imp then missing
      else if installed (package_name imp) = None then insert (install_name imp) missing
      else missing)"

text \<open>\<open>imports\<close> is the Python set in the order the loop visits it.\<close>

definition get_missing_packages :: "host \<Rightarrow> dependency_manager \<Rightarrow> string list \<Rightarrow> string list" where
  "get_missing_packages h dm imports =
     (let installed = get_installed_packages h dm
      in sorted_list_of_set (fold (missing_step h installed) imports {}))"

subsection \<open>analyze\_imports (lines 148 to 168)\<close>

text \<open>\<^verbatim>\<open>ast.iter_child_nodes\<close>: the aliases of an import statement are its child nodes.\<close>

fun iter_child_nodes :: "node \<Rightarrow> node list" where
  "iter_child_nodes (Import names) = map Alias names"
| "iter_child_nodes (ImportFrom module names level) = map Alias names"
| "iter_child_nodes (Alias name) = []"
| "iter_child_nodes (Other children) = children"

text \<open>The number of nodes of a tree; the queue of \<open>walk\<close> loses weight at every step.\<close>

fun node_weight :: "node \<Rightarrow> nat" where
  "node_weight (Import names) = Suc (length names)"
| "node_weight (ImportFrom module names level) = Suc (length names)"
| "node_weight (Alias name) = Suc 0"
| "node_weight (Other children) = Suc (sum_list (map node_weight children))"

text \<open>\<^verbatim>\<open>ast.walk\<close>: a queue, first in first out; each node is yielded when it leaves the
  queue and its children join the end.\<close>

function walk :: "node list \<Rightarrow> node list" where
  "walk [] = []"
| "walk (n # todo) = n # walk (todo @ iter_child_nodes n)"
  by pat_completeness auto
termination
proof (relation "measure (\<lambda>todo. sum_list (map node_weight todo))")
  show "wf (measure (\<lambda>todo. sum_list (map node_weight todo)))"
    by simp
next
  fix n :: node and todo :: "node list"
  show "(todo @ iter_child_nodes n, n # todo) \<in> measure (\<lambda>todo. sum_list (map node_weight todo))"
    by (cases n) (simp_all add: comp_def sum_list_triv)
qed

text \<open>\<^verbatim>\<open>name.split('.')[0]\<close>; \<open>split_on\<close> never returns the empty list.\<close>

definition top_level :: "string \<Rightarrow> string" where
  "top_level name = hd (split_on CHR ''.'' name)"

text \<open>The body of the loop over \<^verbatim>\<open>ast.walk(tree)\<close>.\<close>

definition visit :: "node \<Rightarrow> string set \<Rightarrow> string set" where
  "visit n imports =
     (case n of
        Import names \<Rightarrow> fold (\<lambda>name acc. insert (top_level name) acc) names imports
      | ImportFrom module names level \<Rightarrow>
          (case module of
             None \<Rightarrow> imports
           | Some m \<Rightarrow> if m \<noteq> [] then insert (top_level m) imports else imports)
      | Alias name \<Rightarrow> imports
      | Other children \<Rightarrow> imports)"

text \<open>One file: \<open>open\<close>, \<open>read\<close> and \<open>ast.parse\<close> raise before anything is added, and
  \<^verbatim>\<open>except Exception: continue\<close> goes on with the next file.\<close>

definition analyze_file :: "host \<Rightarrow> string \<Rightarrow> string set \<Rightarrow> string set" where
  "analyze_file h file_path imports =
     (case read_file h file_path of
        None \<Rightarrow> imports
      | Some content \<Rightarrow>
          (case ast_parse h content of
             None \<Rightarrow> imports
           | Some tree \<Rightarrow> fold visit (walk [tree]) imports))"

definition analyze_imports :: "host \<Rightarrow> string list \<Rightarrow> string set" where
  "analyze_imports h code_files = fold (analyze_file h) code_files {}"

subsection \<open>detect\_venv and create\_venv (lines 82 to 131)\<close>

definition venv_candidates :: "string list" where
  "venv_candidates = [''venv'', ''env'', ''.venv'', ''.env'']"

text \<open>The interpreter of an environment; \<^verbatim>\<open>os.path.join\<close> of three parts joins from the
  left.\<close>

definition venv_python :: "host \<Rightarrow> string \<Rightarrow> string" where
  "venv_python h venv =
     (if os_name h = ''nt'' then path_join h (path_join h venv ''Scripts'') ''python.exe''
      else path_join h (path_join h venv ''bin'') ''python'')"

text \<open>The loop over the candidates: the environment and interpreter of the first candidate
  that is a directory and whose interpreter exists.\<close>

fun probe :: "host \<Rightarrow> filesystem \<Rightarrow> string \<Rightarrow> string list \<Rightarrow> (string \<times> string) option" where
  "probe h fs root [] = None"
| "probe h fs root (candidate # rest) =
     (let potential_venv = path_join h root candidate in
      if isdir fs potential_venv then
        (let python_exe = venv_python h potential_venv in
         if exists fs python_exe then Some (potential_venv, python_exe)
         else probe h fs root rest)
      else probe h fs root rest)"

text \<open>\<^verbatim>\<open>not self.project_path\<close> holds for None and for the empty string.\<close>

definition detect_venv :: "host \<Rightarrow> filesystem \<Rightarrow> dependency_manager \<Rightarrow> bool \<times> dependency_manager" where
  "detect_venv h fs dm =
     (case project_path dm of
        None \<Rightarrow> (False, dm)
      | Some root \<Rightarrow>
          if root = [] then (False, dm)
          else (case probe h fs root venv_candidates of
                  Some (potential_venv, python_exe) \<Rightarrow>
                    (True, dm\<lparr>venv_path := Some potential_venv, python_executable := python_exe\<rparr>)
                | None \<Rightarrow>
                    (False, dm\<lparr>venv_path := None, python_executable := sys_executable h\<rparr>)))"

text \<open>\<^verbatim>\<open>__init__\<close>.\<close>

definition init :: "host \<Rightarrow> filesystem \<Rightarrow> string option \<Rightarrow> dependency_manager" where
  "init h fs path =
     (let dm = \<lparr>project_path = path, venv_path = None, python_executable = sys_executable h\<rparr>
      in if path \<noteq> None \<and> path \<noteq> Some [] then snd (detect_venv h fs dm) else dm)"

definition already_exists :: "string \<Rightarrow> py_exn" where
  "already_exists venv_name =
     Exception (''Virtual environment '' @ [CHR 0x27] @ venv_name @ [CHR 0x27] @ '' already exists'')"

text \<open>The result is what the call returns or raises, the manager after the call and the
  file system after the call.\<close>

definition create_venv ::
  "host \<Rightarrow> filesystem \<Rightarrow> dependency_manager \<Rightarrow> string \<Rightarrow> (py_exn + bool) \<times> dependency_manager \<times> filesystem" where
  "create_venv h fs dm venv_name =
     (case project_path dm of
        None \<Rightarrow> (Inl (Exception ''No project path set''), dm, fs)
      | Some root \<Rightarrow>
          if root = [] then (Inl (Exception ''No project path set''), dm, fs)
          else (let new_path = path_join h root venv_name in
                if exists fs new_path then (Inl (already_exists venv_name), dm, fs)
                else (case venv_create h fs new_path of
                        (Some e, fs') \<Rightarrow> (Inl e, dm, fs')
                      | (None, fs') \<Rightarrow>
                          (Inr True,
                           dm\<lparr>venv_path := Some new_path, python_executable := venv_python h new_path\<rparr>,
                           fs'))))"

text \<open>What the class relies on from \<^verbatim>\<open>venv.create\<close>: when it returns, the directory it
  was asked for exists.\<close>

definition venv_create_makes_path :: "host \<Rightarrow> bool" where
  "venv_create_makes_path h =
     (\<forall>fs p fs'. venv_create h fs p = (None, fs') \<longrightarrow> exists fs' p)"

subsection \<open>install\_packages (lines 234 to 269)\<close>

text \<open>The sink \<open>output_callback\<close> is a function on the state \<open>'s\<close> of whoever listens.
  The body of the \<^verbatim>\<open>try\<close>:\<close>

definition install_packages_try ::
  "host \<Rightarrow> dependency_manager \<Rightarrow> string list \<Rightarrow> (string \<Rightarrow> 's \<Rightarrow> 's) option \<Rightarrow> 's \<Rightarrow> (py_exn + bool) \<times> 's" where
  "install_packages_try h dm packages output_callback s =
     (let cmd = [python_executable dm, ''-m'', ''pip'', ''install''] @ packages in
      case output_callback of
        Some cb \<Rightarrow>
          (case subprocess_Popen h cmd of
             PopenFault \<Rightarrow> (Inl OSError, s)
           | Streamed lines rc \<Rightarrow> (Inr (rc = 0), fold cb lines s))
      | None \<Rightarrow>
          (case subprocess_run h cmd of
             RunFault \<Rightarrow> (Inl OSError, s)
           | Completed rc out err \<Rightarrow>
               if rc \<noteq> 0 then (Inl (CalledProcessError rc out err), s) else (Inr True, s)))"

text \<open>\<^verbatim>\<open>except subprocess.CalledProcessError as e\<close> is the only handler.\<close>

definition install_packages ::
  "host \<Rightarrow> dependency_manager \<Rightarrow> string list \<Rightarrow> (string \<Rightarrow> 's \<Rightarrow> 's) option \<Rightarrow> 's \<Rightarrow> (py_exn + bool) \<times> 's" where
  "install_packages h dm packages output_callback s =
     (if packages = [] then (Inr True, s)
      else (case install_packages_try h dm packages output_callback s of
              (Inl (CalledProcessError rc out err), s') \<Rightarrow>
                (case output_callback of
                   Some cb \<Rightarrow>
                     (Inr False,
                      cb (''Error: '' @ exn_text h (CalledProcessError rc out err) @ [CHR 0x0A]
                          @ (if err \<noteq> [] then err else out) @ [CHR 0x0A]) s')
                 | None \<Rightarrow> (Inr False, s'))
            | r \<Rightarrow> r))"

subsection \<open>Properties the statements below are phrased with\<close>

text \<open>A candidate qualifies when it is a directory under the root and holds the
  interpreter of the platform.\<close>

definition qualifies :: "host \<Rightarrow> filesystem \<Rightarrow> string \<Rightarrow> string \<Rightarrow> bool" where
  "qualifies h fs root candidate =
     (isdir fs (path_join h root candidate)
      \<and> exists fs (venv_python h (path_join h root candidate)))"

text \<open>An entry of a well-formed listing: an object with a string under \<open>name\<close> and
  something under \<open>version\<close>.\<close>

definition well_formed_entry :: "json \<Rightarrow> bool" where
  "well_formed_entry pkg =
     (case pkg of
        JObj kvs \<Rightarrow>
          (case dict_get kvs ''name'' of
             Some (JStr n) \<Rightarrow> dict_get kvs ''version'' \<noteq> None
           | _ \<Rightarrow> False)
      | _ \<Rightarrow> False)"

text \<open>What lowering an ASCII name means, character by character and said without
  \<open>lower\<close>: a letter from A to Z (codes 65 to 90) becomes the character 32 above it,
  every other character stays.\<close>

definition ascii_lowered :: "string \<Rightarrow> string \<Rightarrow> bool" where
  "ascii_lowered n k =
     list_all2 (\<lambda>a b. if 65 \<le> (of_char a :: nat) \<and> (of_char a :: nat) \<le> 90
                       then (of_char b :: nat) = of_char a + 32 else b = a) n k"

text \<open>No letter from A to Z occurs.\<close>

definition no_ascii_upper :: "string \<Rightarrow> bool" where
  "no_ascii_upper k = list_all (\<lambda>c. \<not> (65 \<le> (of_char c :: nat) \<and> (of_char c :: nat) \<le> 90)) k"

text \<open>What the statements rely on from the Unicode tables, where they say so: lowering
  leaves no letter from A to Z.\<close>

definition unicode_lower_folds_ascii :: "host \<Rightarrow> bool" where
  "unicode_lower_folds_ascii h = (\<forall>s. no_ascii_upper (unicode_lower h s))"

text \<open>A well-formed listing: a list of well-formed entries.\<close>

definition well_formed_listing :: "json \<Rightarrow> bool" where
  "well_formed_listing j =
     (case j of JArr items \<Rightarrow> list_all well_formed_entry items | _ \<Rightarrow> False)"

text \<open>The command line of the query.\<close>

definition pip_list_command :: "dependency_manager \<Rightarrow> string list" where
  "pip_list_command dm = [python_executable dm, ''-m'', ''pip'', ''list'', ''--format=json'']"

text \<open>The names a parsed file contributes.\<close>

definition tree_imports :: "node \<Rightarrow> string set" where
  "tree_imports tree = fold visit (walk [tree]) {}"

text \<open>The nodes of a tree: the node itself and the nodes of its children.\<close>

fun nodes_of :: "node \<Rightarrow> node set" where
  "nodes_of (Import names) = insert (Import names) (Alias ` set names)"
| "nodes_of (ImportFrom module names level) =
     insert (ImportFrom module names level) (Alias ` set names)"
| "nodes_of (Alias name) = {Alias name}"
| "nodes_of (Other children) = insert (Other children) (\<Union> (nodes_of ` set children))"

text \<open>The first component of a dotted name, said without \<open>split\<close>.\<close>

definition first_component :: "string \<Rightarrow> string" where
  "first_component name = takeWhile (\<lambda>c. c \<noteq> CHR ''.'') name"

subsection \<open>A POSIX host and a project, for the examples\<close>

text \<open>\<^verbatim>\<open>posixpath.join\<close> of two parts.\<close>

definition posix_join :: "string \<Rightarrow> string \<Rightarrow> string" where
  "posix_join a b =
     (if b \<noteq> [] \<and> hd b = CHR ''/'' then b
      else if a = [] \<or> last a = CHR ''/'' then a @ b
      else a @ ''/'' @ b)"

definition quoted :: "string \<Rightarrow> string" where
  "quoted s = [CHR 0x22] @ s @ [CHR 0x22]"

definition example_listing :: string where
  "example_listing =
     ''[{'' @ quoted ''name'' @ '': '' @ quoted ''Requests'' @ '', ''
       @ quoted ''version'' @ '': '' @ quoted ''2.31.0'' @ ''}]''"

definition example_source :: string where
  "example_source = ''import a.b.c'' @ [CHR 0x0A] @ ''from x.y import z'' @ [CHR 0x0A]
     @ ''from . import w'' @ [CHR 0x0A]"

definition example_tree :: node where
  "example_tree =
     Other [Import [''a.b.c''], ImportFrom (Some ''x.y'') [''z''] 0, ImportFrom None [''w''] 1]"

definition example_find_spec :: "string \<Rightarrow> find_spec_result" where
  "example_find_spec m =
     (if m = ''os'' then FindSpec (Some ''/usr/lib/python3.11/os.py'')
      else if m = ''requests''
      then FindSpec (Some ''/usr/lib/python3.11/site-packages/requests/__init__.py'')
      else FindNone)"

text \<open>Of the interpreters that can be started, only \<^verbatim>\<open>/usr/bin/python3\<close> has a
  working pip: its \<^verbatim>\<open>pip list\<close> succeeds and its \<^verbatim>\<open>pip install\<close> fails with return
  code 1. One interpreter has no pip, one prints a warning instead of JSON, one prints JSON
  of the wrong shape; any other path cannot be started.\<close>

definition example_run :: "string list \<Rightarrow> run_result" where
  "example_run cmd =
     (case cmd of
        [] \<Rightarrow> RunFault
      | exe # args \<Rightarrow>
          if exe = ''/usr/bin/python3'' then
            (if args = [''-m'', ''pip'', ''list'', ''--format=json'']
             then Completed 0 example_listing []
             else Completed 1 [] ''ERROR: No matching distribution found'')
          else if exe = ''/opt/nopip/python'' then Completed 1 [] ''No module named pip''
          else if exe = ''/opt/noisy/python'' then Completed 0 ''WARNING: pip is outdated'' []
          else if exe = ''/opt/odd/python'' then Completed 0 ''[7]'' []
          else RunFault)"

definition example_Popen :: "string list \<Rightarrow> popen_result" where
  "example_Popen cmd =
     (if take 1 cmd = [''/usr/bin/python3'']
      then Streamed [''ERROR: No matching distribution found'' @ [CHR 0x0A]] 1
      else PopenFault)"

definition example_venv_create :: "filesystem \<Rightarrow> string \<Rightarrow> py_exn option \<times> filesystem" where
  "example_venv_create fs p =
     (None, fs\<lparr>isdir := (isdir fs)(p := True), exists := (exists fs)(p := True)\<rparr>)"

definition example_host :: host where
  "example_host =
     \<lparr>os_name = ''posix'',
      sys_executable = ''/usr/bin/python3'',
      builtin_module_names = [''sys'', ''builtins'', ''time''],
      find_spec = example_find_spec,
      path_join = posix_join,
      subprocess_run = example_run,
      subprocess_Popen = example_Popen,
      json_loads = (\<lambda>s. if s = example_listing
         then Some (JArr [JObj [(''name'', JStr ''Requests''), (''version'', JStr ''2.31.0'')]])
         else if s = ''[7]'' then Some (JArr [JNum ''7''])
         else None),
      read_file = (\<lambda>p. if p = ''/proj/app.py'' then Some example_source
         else if p = ''/proj/bad.py'' then Some ''def (''
         else None),
      ast_parse = (\<lambda>c. if c = example_source then Some example_tree else None),
      venv_create = example_venv_create,
      exn_text = (\<lambda>e. ''Command returned non-zero exit status 1.''),
      unicode_lower = map lower_char\<rparr>"

text \<open>A project with two environments, \<open>venv\<close> and \<open>env\<close>, and one with none.\<close>

definition example_fs :: filesystem where
  "example_fs =
     \<lparr>isdir = (\<lambda>p. p \<in> set [''/proj'', ''/proj/venv'', ''/proj/venv/bin'', ''/proj/env'',
                              ''/proj/env/bin'']),
      exists = (\<lambda>p. p \<in> set [''/proj'', ''/proj/venv'', ''/proj/venv/bin'', ''/proj/env'',
                               ''/proj/env/bin'', ''/proj/venv/bin/python'',
                               ''/proj/env/bin/python''])\<rparr>"

definition bare_fs :: filesystem where
  "bare_fs = \<lparr>isdir = (\<lambda>p. p = ''/proj''), exists = (\<lambda>p. p = ''/proj'')\<rparr>"

definition example_dm :: dependency_manager where
  "example_dm =
     \<lparr>project_path = Some ''/proj'', venv_path = None, python_executable = ''/usr/bin/python3''\<rparr>"

text \<open>A manager whose environment was removed after it had been detected.\<close>

definition stale_dm :: dependency_manager where
  "stale_dm =
     \<lparr>project_path = Some ''/proj'', venv_path = Some ''/proj/venv'',
      python_executable = ''/proj/venv/bin/python''\<rparr>"

section \<open>Module names\<close>

text \<open>A name that is not classified as standard library is ASCII, so lowering its ASCII
  letters is all that \<^verbatim>\<open>str.lower()\<close> does to it.\<close>

lemma valid_module_name_ascii:
  assumes "valid_module_name s"
  shows "\<forall>c \<in> set s. of_char c < (128::nat)"
proof -
  from assms obtain c cs where s: "s = c # cs" and c: "is_name_start c"
    and r: "dropWhile is_name_char cs = [] \<or> dropWhile is_name_char cs = [CHR 0x0A]"
    by (auto simp: valid_module_name_def Let_def split: list.splits)
  have n: "of_char x < (128::nat)" if "is_name_char x \<or> x = CHR 0x0A" for x
    using that by (auto simp: is_name_char_def is_lower_def is_upper_def is_digit_def Let_def)
  have "set cs = set (takeWhile is_name_char cs) \<union> set (dropWhile is_name_char cs)"
    by (metis set_append takeWhile_dropWhile_id)
  with r have "\<forall>x \<in> set cs. is_name_char x \<or> x = CHR 0x0A"
    by (auto dest: set_takeWhileD)
  with n have "\<forall>x \<in> set cs. of_char x < (128::nat)"
    by blast
  moreover from c have "of_char c < (128::nat)"
    by (auto simp: is_name_start_def is_lower_def is_upper_def Let_def)
  ultimately show ?thesis using s by simp
qed

lemma not_stdlib_ascii:
  "\<not> is_standard_library h imp \<Longrightarrow> \<forall>c \<in> set imp. of_char c < (128::nat)"
  using valid_module_name_ascii[of imp]
  by (auto simp: is_standard_library_def split: if_splits)

section \<open>Missing packages\<close>


lemma fold_missing_step:
  "fold (missing_step h installed) imps M =
     M \<union> {install_name imp | imp. imp \<in> set imps \<and> \<not> is_standard_library h imp
            \<and> installed (package_name imp) = None}"
proof (induction imps arbitrary: M)
  case Nil
  show ?case by simp
next
  case (Cons imp imps)
  show ?case
    unfolding fold_simps Cons.IH
    by (auto simp: missing_step_def)
qed

lemma finite_fold_missing_step: "finite (fold (missing_step h installed) imps {})"
proof -
  have "fold (missing_step h installed) imps {} \<subseteq> install_name ` set imps"
    by (auto simp: fold_missing_step)
  then show ?thesis by (rule finite_subset) simp
qed

lemma set_get_missing_packages:
  "set (get_missing_packages h dm imps) =
     {install_name imp | imp. imp \<in> set imps \<and> \<not> is_standard_library h imp
        \<and> get_installed_packages h dm (package_name imp) = None}"
  using finite_fold_missing_step[of h "get_installed_packages h dm" imps]
  by (simp add: get_missing_packages_def fold_missing_step)




lemmas char_class_defs =
  valid_module_name_def is_name_start_def is_name_char_def is_lower_def is_upper_def is_digit_def

lemma example_numpy_not_stdlib: "\<not> is_standard_library example_host ''numpy''"
  by (simp add: is_standard_library_def char_class_defs example_host_def example_find_spec_def)

lemma example_installed_requests:
  "get_installed_packages example_host example_dm ''requests'' = Some (JStr ''2.31.0'')"
  by code_simp


lemma example_missing:
  "get_missing_packages example_host example_dm [''os'', ''cv2'', ''requests'', ''numpy'']
     = [''numpy'', ''opencv-python'']"
  by code_simp


section \<open>Standard library names and aliases\<close>

lemma alias_value_not_key:
  "map_of import_to_package_map k = Some v \<Longrightarrow> map_of import_to_package_map v = None"
  by (auto simp: import_to_package_map_def split: if_splits)

lemma alias_value_lower: "map_of import_to_package_map k = Some v \<Longrightarrow> lower v = v"
  by (auto simp: import_to_package_map_def lower_def lower_char_def is_upper_def split: if_splits)

lemma alias_value_in_map:
  "map_of import_to_package_map k = Some v \<Longrightarrow> v \<in> snd ` set import_to_package_map"
  by (metis map_of_SomeD image_eqI snd_conv)

lemma lower_char_idem: "lower_char (lower_char c) = lower_char c"
  by (auto simp: lower_char_def is_upper_def Let_def)

lemma lower_idem: "lower (lower s) = lower s"
  by (simp add: lower_def lower_char_idem)

lemma install_name_cases:
  "install_name imp = imp \<or> install_name imp \<in> snd ` set import_to_package_map"
  by (auto simp: install_name_def alias_get_def Let_def dest: alias_value_in_map split: option.splits)

text \<open>
  C3, as stated, fails: the import \<open>cv2\<close> is not standard library and not installed, so
  the result holds its install name \<open>opencv-python\<close>, and \<open>is_standard_library\<close>
  classifies that string as standard library, since the hyphen keeps it from matching the
  pattern of module names.
\<close>

theorem install_name_stdlib_counterexample:
  "''opencv-python'' \<in> set (get_missing_packages example_host example_dm [''cv2''])
   \<and> is_standard_library example_host ''opencv-python''"
proof -
  have "get_missing_packages example_host example_dm [''cv2''] = [''opencv-python'']"
    by code_simp
  moreover have "is_standard_library example_host ''opencv-python''"
    by (simp add: is_standard_library_def char_class_defs)
  ultimately show ?thesis by simp
qed

text \<open>
  C3, amended. Every element of the result is the install name of an import that is not
  classified as standard library and is not installed, so an import classified as standard
  library is skipped before its alias is looked up; and an element that is not a value of
  the alias map is itself not classified as standard library.
\<close>

theorem get_missing_packages_skips_stdlib:
  assumes "x \<in> set (get_missing_packages h dm imps)"
  shows "(\<exists>imp \<in> set imps. \<not> is_standard_library h imp
            \<and> get_installed_packages h dm (package_name imp) = None
            \<and> x = install_name imp)
    \<and> (x \<notin> snd ` set import_to_package_map \<longrightarrow> \<not> is_standard_library h x)"
proof -
  from assms obtain imp where imp: "imp \<in> set imps" "\<not> is_standard_library h imp"
    "get_installed_packages h dm (package_name imp) = None" "x = install_name imp"
    by (auto simp: set_get_missing_packages)
  have "\<not> is_standard_library h x" if "x \<notin> snd ` set import_to_package_map"
    using that imp(2,4) install_name_cases[of imp] by auto
  with imp show ?thesis by blast
qed

theorem get_missing_packages_skips_stdlib_witness:
  "''numpy'' \<in> set (get_missing_packages example_host example_dm [''os'', ''cv2'', ''numpy''])
   \<and> is_standard_library example_host ''os''
   \<and> ''os'' \<notin> set (get_missing_packages example_host example_dm [''os'', ''cv2'', ''numpy''])
   \<and> ''numpy'' \<notin> snd ` set import_to_package_map
   \<and> (\<exists>imp \<in> set [''os'', ''cv2'', ''numpy'']. \<not> is_standard_library example_host imp
          \<and> get_installed_packages example_host example_dm (package_name imp) = None
          \<and> ''numpy'' = install_name imp)
   \<and> \<not> is_standard_library example_host ''numpy''"
proof -
  have r: "get_missing_packages example_host example_dm [''os'', ''cv2'', ''numpy'']
      = [''numpy'', ''opencv-python'']"
    by code_simp
  have a: "''numpy'' \<in> set (get_missing_packages example_host example_dm [''os'', ''cv2'', ''numpy''])"
    by (simp add: r)
  have b: "is_standard_library example_host ''os''"
    by code_simp
  have c: "''os'' \<notin> set (get_missing_packages example_host example_dm [''os'', ''cv2'', ''numpy''])"
    by (simp add: r)
  have d: "''numpy'' \<notin> snd ` set import_to_package_map"
    by (simp add: import_to_package_map_def)
  show ?thesis
    using get_missing_packages_skips_stdlib [OF a] a b c d by blast
qed

text \<open>
  C9. No value of the alias map is a key of it, so resolving a resolved name changes
  nothing, for the install name and for the package name that is compared with the
  installed ones.
\<close>

theorem alias_resolution_idempotent:
  "(\<forall>k v. map_of import_to_package_map k = Some v \<longrightarrow> map_of import_to_package_map v = None)
   \<and> install_name (install_name imp) = install_name imp
   \<and> package_name (package_name imp) = package_name imp"
proof -
  have "install_name (install_name imp) = install_name imp"
    by (auto simp: install_name_def alias_get_def Let_def alias_value_lower
        dest: alias_value_not_key split: option.splits)
  moreover have "package_name (package_name imp) = package_name imp"
    by (auto simp: package_name_def alias_get_def Let_def alias_value_lower lower_idem
        dest: alias_value_not_key split: option.splits)
  ultimately show ?thesis
    using alias_value_not_key by blast
qed

theorem alias_resolution_idempotent_witness:
  "map_of import_to_package_map ''cv2'' = Some ''opencv-python''
   \<and> map_of import_to_package_map ''opencv-python'' = None
   \<and> install_name ''CV2'' = ''opencv-python''
   \<and> install_name (install_name ''CV2'') = ''opencv-python''"
proof -
  have a: "map_of import_to_package_map ''cv2'' = Some ''opencv-python''"
    by (simp add: import_to_package_map_def)
  have b: "install_name ''CV2'' = ''opencv-python''"
    by code_simp
  show ?thesis
    using alias_resolution_idempotent [of "''CV2''"] a b by auto
qed

section \<open>Installed packages\<close>

lemma ascii_lowered_lower: "ascii_lowered n (lower n)"
  unfolding ascii_lowered_def lower_def
  by (induction n) (auto simp: lower_char_def is_upper_def Let_def)

lemma ascii_lowered_no_upper: "ascii_lowered n k \<Longrightarrow> no_ascii_upper k"
  unfolding ascii_lowered_def no_ascii_upper_def
  by (induction n k rule: list_all2_induct) (auto split: if_splits)

lemma str_lower_ascii: "is_ascii n \<Longrightarrow> ascii_lowered n (str_lower h n)"
  by (simp add: str_lower_def ascii_lowered_lower)

lemma str_lower_no_upper:
  "is_ascii n \<or> unicode_lower_folds_ascii h \<Longrightarrow> no_ascii_upper (str_lower h n)"
  by (auto simp: str_lower_def unicode_lower_folds_ascii_def
      intro: ascii_lowered_no_upper[OF ascii_lowered_lower])

lemma not_stdlib_str_lower: "\<not> is_standard_library h imp \<Longrightarrow> str_lower h imp = lower imp"
  using not_stdlib_ascii[of h imp] by (simp add: str_lower_def is_ascii_def list_all_iff)

lemma package_entry_Inr_iff:
  "package_entry h pkg = Inr (k, v) \<longleftrightarrow>
     (\<exists>kvs n. pkg = JObj kvs \<and> dict_get kvs ''name'' = Some (JStr n)
        \<and> dict_get kvs ''version'' = Some v \<and> k = str_lower h n)"
  by (auto simp: package_entry_def subscript_def split: json.splits option.splits)

lemma well_formed_entry_iff: "well_formed_entry pkg \<longleftrightarrow> (\<exists>kv. package_entry h pkg = Inr kv)"
  by (auto simp: well_formed_entry_def package_entry_def subscript_def
      split: json.splits option.splits)

lemma build_packages_malformed:
  "\<not> list_all well_formed_entry items \<Longrightarrow> \<exists>e. build_packages h items d = Inl e"
proof (induction items arbitrary: d)
  case Nil
  then show ?case by simp
next
  case (Cons pkg items)
  show ?case
  proof (cases "package_entry h pkg")
    case (Inl e)
    then show ?thesis by simp
  next
    case (Inr kv)
    then have "well_formed_entry pkg"
      by (auto simp: well_formed_entry_iff[of pkg h])
    with Cons.prems have "\<not> list_all well_formed_entry items"
      by simp
    from Cons.IH[OF this] Inr show ?thesis
      by (cases kv) simp
  qed
qed

lemma build_packages_well_formed:
  "list_all well_formed_entry items \<Longrightarrow>
   \<exists>d'. build_packages h items d = Inr d'
     \<and> (\<forall>k v. d' k = Some v \<longrightarrow>
           d k = Some v \<or> (\<exists>pkg \<in> set items. package_entry h pkg = Inr (k, v)))
     \<and> (\<forall>k. k \<in> dom d \<longrightarrow> k \<in> dom d')
     \<and> (\<forall>pkg \<in> set items. \<forall>k v. package_entry h pkg = Inr (k, v) \<longrightarrow> k \<in> dom d')"
proof (induction items arbitrary: d)
  case Nil
  then show ?case by simp
next
  case (Cons pkg items)
  from Cons.prems obtain k v where kv: "package_entry h pkg = Inr (k, v)"
    by (auto simp: well_formed_entry_iff[of pkg h])
  from Cons.prems have "list_all well_formed_entry items"
    by simp
  from Cons.IH[OF this, of "d(k \<mapsto> v)"] obtain d' where
    d': "build_packages h items (d(k \<mapsto> v)) = Inr d'"
    and src: "\<forall>k' v'. d' k' = Some v' \<longrightarrow>
        (d(k \<mapsto> v)) k' = Some v' \<or> (\<exists>pkg \<in> set items. package_entry h pkg = Inr (k', v'))"
    and keep: "\<forall>k'. k' \<in> dom (d(k \<mapsto> v)) \<longrightarrow> k' \<in> dom d'"
    and all: "\<forall>pkg \<in> set items. \<forall>k v. package_entry h pkg = Inr (k, v) \<longrightarrow> k \<in> dom d'"
    by blast
  have 1: "build_packages h (pkg # items) d = Inr d'"
    using kv d' by simp
  have 2: "\<forall>k' v'. d' k' = Some v' \<longrightarrow>
      d k' = Some v' \<or> (\<exists>p \<in> set (pkg # items). package_entry h p = Inr (k', v'))"
  proof (intro allI impI)
    fix k' v' assume "d' k' = Some v'"
    with src have "(d(k \<mapsto> v)) k' = Some v'
        \<or> (\<exists>p \<in> set items. package_entry h p = Inr (k', v'))"
      by blast
    then show "d k' = Some v' \<or> (\<exists>p \<in> set (pkg # items). package_entry h p = Inr (k', v'))"
      using kv by (auto split: if_splits)
  qed
  have 3: "\<forall>k'. k' \<in> dom d \<longrightarrow> k' \<in> dom d'"
    using keep by auto
  have 4: "\<forall>p \<in> set (pkg # items). \<forall>k' v'. package_entry h p = Inr (k', v') \<longrightarrow> k' \<in> dom d'"
    using all keep kv by auto
  from 1 2 3 4 show ?case by blast
qed

lemma build_packages_strings:
  "build_packages h (map JStr xs) Map.empty = Inr Map.empty
   \<or> (\<exists>e. build_packages h (map JStr xs) Map.empty = Inl e)"
  by (cases xs) (simp_all add: package_entry_def subscript_def)

lemma get_installed_packages_malformed:
  assumes "subprocess_run h (pip_list_command dm) = Completed 0 out err"
    and "json_loads h out = Some j"
    and "\<not> well_formed_listing j"
  shows "get_installed_packages h dm = Map.empty"
proof (cases j)
  case (JArr items)
  with assms(3) have "\<not> list_all well_formed_entry items"
    by (simp add: well_formed_listing_def)
  from build_packages_malformed[OF this, of h Map.empty] show ?thesis
    using assms(1,2) JArr
    by (auto simp: get_installed_packages_def get_installed_packages_try_def
        pip_list_command_def py_iter_def)
next
  case (JObj kvs)
  from build_packages_strings[of h "rev (remdups (rev (map fst kvs)))"] show ?thesis
    using assms(1,2) JObj
    by (auto simp: get_installed_packages_def get_installed_packages_try_def
        pip_list_command_def py_iter_def)
next
  case (JStr s)
  from build_packages_strings[of h "map (\<lambda>c. [c]) s"] show ?thesis
    using assms(1,2) JStr
    by (auto simp: get_installed_packages_def get_installed_packages_try_def
        pip_list_command_def py_iter_def comp_def)
qed (use assms(1,2) in \<open>simp_all add: get_installed_packages_def get_installed_packages_try_def
        pip_list_command_def py_iter_def\<close>)

lemma get_installed_packages_success:
  assumes "subprocess_run h (pip_list_command dm) = Completed 0 out err"
    and "json_loads h out = Some (JArr items)"
    and "list_all well_formed_entry items"
  shows "(\<forall>k v. get_installed_packages h dm k = Some v \<longrightarrow>
            (\<exists>kvs n. JObj kvs \<in> set items \<and> dict_get kvs ''name'' = Some (JStr n)
                  \<and> dict_get kvs ''version'' = Some v \<and> k = str_lower h n))
       \<and> (\<forall>kvs n. JObj kvs \<in> set items \<and> dict_get kvs ''name'' = Some (JStr n) \<longrightarrow>
            get_installed_packages h dm (str_lower h n) \<noteq> None)"
proof -
  from build_packages_well_formed[OF assms(3), of h Map.empty] obtain d' where
    d': "build_packages h items Map.empty = Inr d'"
    and src: "\<forall>k v. d' k = Some v \<longrightarrow> (\<exists>pkg \<in> set items. package_entry h pkg = Inr (k, v))"
    and all: "\<forall>pkg \<in> set items. \<forall>k v. package_entry h pkg = Inr (k, v) \<longrightarrow> k \<in> dom d'"
    by auto
  have g: "get_installed_packages h dm = d'"
    using assms(1,2) d'
    by (simp add: get_installed_packages_def get_installed_packages_try_def
        pip_list_command_def py_iter_def)
  have 1: "\<exists>kvs n. JObj kvs \<in> set items \<and> dict_get kvs ''name'' = Some (JStr n)
                  \<and> dict_get kvs ''version'' = Some v \<and> k = str_lower h n"
    if "d' k = Some v" for k v
  proof -
    from that src obtain pkg where "pkg \<in> set items" "package_entry h pkg = Inr (k, v)"
      by blast
    then show ?thesis
      by (auto simp: package_entry_Inr_iff)
  qed
  have 2: "d' (str_lower h n) \<noteq> None"
    if "JObj kvs \<in> set items" "dict_get kvs ''name'' = Some (JStr n)" for kvs n
  proof -
    from assms(3) that(1) have "well_formed_entry (JObj kvs)"
      by (simp add: list_all_iff)
    with that(2) obtain v where "package_entry h (JObj kvs) = Inr (str_lower h n, v)"
      by (auto simp: well_formed_entry_def package_entry_def subscript_def split: option.splits)
    with all that(1) show ?thesis by blast
  qed
  from 1 2 show ?thesis unfolding g by blast
qed

lemma get_installed_packages_fault:
  "subprocess_run h (pip_list_command dm) = RunFault \<Longrightarrow> get_installed_packages h dm = Map.empty"
  by (simp add: get_installed_packages_def get_installed_packages_try_def pip_list_command_def)

lemma get_installed_packages_nonzero:
  "subprocess_run h (pip_list_command dm) = Completed rc out err \<Longrightarrow> rc \<noteq> 0 \<Longrightarrow>
   get_installed_packages h dm = Map.empty"
  by (simp add: get_installed_packages_def get_installed_packages_try_def pip_list_command_def)

lemma get_installed_packages_not_json:
  "subprocess_run h (pip_list_command dm) = Completed 0 out err \<Longrightarrow> json_loads h out = None \<Longrightarrow>
   get_installed_packages h dm = Map.empty"
  by (simp add: get_installed_packages_def get_installed_packages_try_def pip_list_command_def)

text \<open>
  C5. The function returns a mapping in every case: each exception of the body of the
  \<open>try\<close> ends in the empty mapping. That is so when the package manager cannot be
  started, when it exits with a non-zero code, when its output is not JSON, and when the
  JSON is not a list of entries with a string \<open>name\<close> and a \<open>version\<close>. On success
  every key is the lowered name of an entry of the listing and carries the version of that
  entry, and the lowered name of every entry is a key. Lowered is said without the
  function that lowers: for an ASCII name the key is the name with each letter from A to Z
  replaced by the character 32 above it and every other character kept, so no letter from
  A to Z is left in it; for any other name the key is what the Unicode tables of the host
  give, with no letter from A to Z when the tables leave none.
\<close>

theorem get_installed_packages_soft_failure:
  "(subprocess_run h (pip_list_command dm) = RunFault \<longrightarrow>
      get_installed_packages h dm = Map.empty)
   \<and> (\<forall>rc out err. subprocess_run h (pip_list_command dm) = Completed rc out err \<and> rc \<noteq> 0 \<longrightarrow>
      get_installed_packages h dm = Map.empty)
   \<and> (\<forall>out err. subprocess_run h (pip_list_command dm) = Completed 0 out err
        \<and> json_loads h out = None \<longrightarrow>
      get_installed_packages h dm = Map.empty)
   \<and> (\<forall>out err j. subprocess_run h (pip_list_command dm) = Completed 0 out err
        \<and> json_loads h out = Some j \<and> \<not> well_formed_listing j \<longrightarrow>
      get_installed_packages h dm = Map.empty)
   \<and> (\<forall>e. get_installed_packages_try h dm = Inl e \<longrightarrow> get_installed_packages h dm = Map.empty)
   \<and> (\<forall>out err items. subprocess_run h (pip_list_command dm) = Completed 0 out err
        \<and> json_loads h out = Some (JArr items) \<and> list_all well_formed_entry items \<longrightarrow>
      (\<forall>k v. get_installed_packages h dm k = Some v \<longrightarrow>
         (\<exists>kvs n. JObj kvs \<in> set items \<and> dict_get kvs ''name'' = Some (JStr n)
               \<and> dict_get kvs ''version'' = Some v \<and> k = str_lower h n
               \<and> (is_ascii n \<longrightarrow> ascii_lowered n k)
               \<and> (is_ascii n \<or> unicode_lower_folds_ascii h \<longrightarrow> no_ascii_upper k)))
      \<and> (\<forall>kvs n. JObj kvs \<in> set items \<and> dict_get kvs ''name'' = Some (JStr n) \<longrightarrow>
            get_installed_packages h dm (str_lower h n) \<noteq> None
            \<and> (is_ascii n \<longrightarrow>
                 (\<exists>k. ascii_lowered n k \<and> get_installed_packages h dm k \<noteq> None))))"
proof -
  have low: "ascii_lowered s (str_lower h s)" if "is_ascii s" for s
  proof -
    have "list_all2 (\<lambda>a b. if 65 \<le> (of_char a :: nat) \<and> (of_char a :: nat) \<le> 90
                       then (of_char b :: nat) = of_char a + 32 else b = a) s (lower s)"
      unfolding lower_def
      by (induction s) (auto simp: lower_char_def is_upper_def Let_def)
    with that show ?thesis
      by (simp add: str_lower_def ascii_lowered_def)
  qed
  show ?thesis
proof (intro conjI allI impI)
  show "get_installed_packages h dm = Map.empty"
    if "subprocess_run h (pip_list_command dm) = RunFault"
    using that by (rule get_installed_packages_fault)
  show "get_installed_packages h dm = Map.empty"
    if "subprocess_run h (pip_list_command dm) = Completed rc out err \<and> rc \<noteq> 0" for rc out err
    using that get_installed_packages_nonzero by blast
  show "get_installed_packages h dm = Map.empty"
    if "subprocess_run h (pip_list_command dm) = Completed 0 out err \<and> json_loads h out = None"
    for out err
    using that get_installed_packages_not_json by blast
  show "get_installed_packages h dm = Map.empty"
    if "subprocess_run h (pip_list_command dm) = Completed 0 out err
        \<and> json_loads h out = Some j \<and> \<not> well_formed_listing j" for out err j
    using that get_installed_packages_malformed by blast
  show "get_installed_packages h dm = Map.empty"
    if "get_installed_packages_try h dm = Inl e" for e
    using that by (simp add: get_installed_packages_def)
next
  fix out err items k v
  assume a: "subprocess_run h (pip_list_command dm) = Completed 0 out err
        \<and> json_loads h out = Some (JArr items) \<and> list_all well_formed_entry items"
    and k: "get_installed_packages h dm k = Some v"
  from a have s: "subprocess_run h (pip_list_command dm) = Completed 0 out err"
    "json_loads h out = Some (JArr items)" "list_all well_formed_entry items"
    by simp_all
  from get_installed_packages_success[OF s] k obtain kvs n where
    n: "JObj kvs \<in> set items" "dict_get kvs ''name'' = Some (JStr n)"
    "dict_get kvs ''version'' = Some v" "k = str_lower h n"
    by blast
  have "is_ascii n \<longrightarrow> ascii_lowered n k"
    using n(4) low by simp
  moreover have "is_ascii n \<or> unicode_lower_folds_ascii h \<longrightarrow> no_ascii_upper k"
    using n(4) str_lower_no_upper[of n h] by blast
  ultimately show "\<exists>kvs n. JObj kvs \<in> set items \<and> dict_get kvs ''name'' = Some (JStr n)
               \<and> dict_get kvs ''version'' = Some v \<and> k = str_lower h n
               \<and> (is_ascii n \<longrightarrow> ascii_lowered n k)
               \<and> (is_ascii n \<or> unicode_lower_folds_ascii h \<longrightarrow> no_ascii_upper k)"
    using n by blast
next
  fix out err items kvs n
  assume a: "subprocess_run h (pip_list_command dm) = Completed 0 out err
        \<and> json_loads h out = Some (JArr items) \<and> list_all well_formed_entry items"
    and k: "JObj kvs \<in> set items \<and> dict_get kvs ''name'' = Some (JStr n)"
  from a have s: "subprocess_run h (pip_list_command dm) = Completed 0 out err"
    "json_loads h out = Some (JArr items)" "list_all well_formed_entry items"
    by simp_all
  from get_installed_packages_success[OF s] k
  show p: "get_installed_packages h dm (str_lower h n) \<noteq> None" by blast
  show "\<exists>k. ascii_lowered n k \<and> get_installed_packages h dm k \<noteq> None" if "is_ascii n"
    using p low[OF that] by blast
qed
qed

theorem get_installed_packages_soft_failure_witness:
  "subprocess_run example_host (pip_list_command stale_dm) = RunFault
   \<and> get_installed_packages example_host stale_dm = Map.empty
   \<and> subprocess_run example_host (pip_list_command (example_dm\<lparr>python_executable := ''/opt/nopip/python''\<rparr>))
       = Completed 1 [] ''No module named pip''
   \<and> get_installed_packages example_host (example_dm\<lparr>python_executable := ''/opt/nopip/python''\<rparr>)
       = Map.empty
   \<and> subprocess_run example_host (pip_list_command (example_dm\<lparr>python_executable := ''/opt/noisy/python''\<rparr>))
       = Completed 0 ''WARNING: pip is outdated'' []
   \<and> json_loads example_host ''WARNING: pip is outdated'' = None
   \<and> get_installed_packages example_host (example_dm\<lparr>python_executable := ''/opt/noisy/python''\<rparr>)
       = Map.empty
   \<and> subprocess_run example_host (pip_list_command (example_dm\<lparr>python_executable := ''/opt/odd/python''\<rparr>))
       = Completed 0 ''[7]'' []
   \<and> json_loads example_host ''[7]'' = Some (JArr [JNum ''7''])
   \<and> \<not> well_formed_listing (JArr [JNum ''7''])
   \<and> get_installed_packages example_host (example_dm\<lparr>python_executable := ''/opt/odd/python''\<rparr>)
       = Map.empty
   \<and> subprocess_run example_host (pip_list_command example_dm) = Completed 0 example_listing []
   \<and> json_loads example_host example_listing
       = Some (JArr [JObj [(''name'', JStr ''Requests''), (''version'', JStr ''2.31.0'')]])
   \<and> list_all well_formed_entry [JObj [(''name'', JStr ''Requests''), (''version'', JStr ''2.31.0'')]]
   \<and> dict_get [(''name'', JStr ''Requests''), (''version'', JStr ''2.31.0'')] ''name''
       = Some (JStr ''Requests'')
   \<and> is_ascii ''Requests''
   \<and> unicode_lower_folds_ascii example_host
   \<and> get_installed_packages example_host example_dm (str_lower example_host ''Requests'') \<noteq> None
   \<and> get_installed_packages example_host example_dm ''requests'' = Some (JStr ''2.31.0'')
   \<and> ascii_lowered ''Requests'' ''requests''
   \<and> no_ascii_upper ''requests''
   \<and> \<not> no_ascii_upper ''Requests''
   \<and> get_installed_packages example_host example_dm ''Requests'' = None"
proof -
  let ?nopip = "example_dm\<lparr>python_executable := ''/opt/nopip/python''\<rparr>"
  let ?noisy = "example_dm\<lparr>python_executable := ''/opt/noisy/python''\<rparr>"
  let ?odd = "example_dm\<lparr>python_executable := ''/opt/odd/python''\<rparr>"
  let ?kvs = "[(''name'', JStr ''Requests''), (''version'', JStr ''2.31.0'')]"
  let ?items = "[JObj ?kvs]"
  have a: "subprocess_run example_host (pip_list_command stale_dm) = RunFault"
    by (simp add: example_host_def example_run_def pip_list_command_def stale_dm_def)
  have b: "subprocess_run example_host (pip_list_command ?nopip)
      = Completed 1 [] ''No module named pip''"
    by (simp add: example_host_def example_run_def pip_list_command_def example_dm_def)
  have c: "subprocess_run example_host (pip_list_command ?noisy)
      = Completed 0 ''WARNING: pip is outdated'' []"
    by (simp add: example_host_def example_run_def pip_list_command_def example_dm_def)
  have c': "json_loads example_host ''WARNING: pip is outdated'' = None"
    by (simp add: example_host_def example_listing_def quoted_def)
  have d: "subprocess_run example_host (pip_list_command ?odd) = Completed 0 ''[7]'' []"
    by (simp add: example_host_def example_run_def pip_list_command_def example_dm_def)
  have d': "json_loads example_host ''[7]'' = Some (JArr [JNum ''7''])"
    by (simp add: example_host_def example_listing_def quoted_def)
  have d'': "\<not> well_formed_listing (JArr [JNum ''7''])"
    by (simp add: well_formed_listing_def well_formed_entry_def)
  have e: "subprocess_run example_host (pip_list_command example_dm)
      = Completed 0 example_listing []"
    by (simp add: example_host_def example_run_def pip_list_command_def example_dm_def)
  have e': "json_loads example_host example_listing = Some (JArr ?items)"
    by (simp add: example_host_def)
  have e'': "list_all well_formed_entry ?items"
    by (simp add: well_formed_entry_def dict_get_def)
  have f: "dict_get ?kvs ''name'' = Some (JStr ''Requests'')"
    by (simp add: dict_get_def)
  have m: "JObj ?kvs \<in> set ?items"
    by simp
  have i: "is_ascii ''Requests''"
    by (simp add: is_ascii_def)
  have u: "unicode_lower_folds_ascii example_host"
    using ascii_lowered_no_upper[OF ascii_lowered_lower]
    by (simp add: unicode_lower_folds_ascii_def example_host_def lower_def)
  have r: "get_installed_packages example_host example_dm ''requests'' = Some (JStr ''2.31.0'')"
    by code_simp
  have nu: "no_ascii_upper ''requests''" "\<not> no_ascii_upper ''Requests''"
    by (simp_all add: no_ascii_upper_def)
  note t1 = get_installed_packages_soft_failure [of example_host stale_dm]
  note t2 = get_installed_packages_soft_failure [of example_host ?nopip]
  note t3 = get_installed_packages_soft_failure [of example_host ?noisy]
  note t4 = get_installed_packages_soft_failure [of example_host ?odd]
  note t5 = get_installed_packages_soft_failure [of example_host example_dm]
  have 1: "get_installed_packages example_host stale_dm = Map.empty"
    using t1 a by blast
  have 2: "get_installed_packages example_host ?nopip = Map.empty"
    using t2 b by (metis one_neq_zero)
  have 3: "get_installed_packages example_host ?noisy = Map.empty"
    using t3 c c' by blast
  have 4: "get_installed_packages example_host ?odd = Map.empty"
    using t4 d d' d'' by blast
  have 5: "get_installed_packages example_host example_dm (str_lower example_host ''Requests'')
      \<noteq> None"
    using t5 e e' e'' f m by blast
  from t5 e e' e'' r obtain kvs n where
    n: "JObj kvs \<in> set ?items" "dict_get kvs ''name'' = Some (JStr n)"
      "is_ascii n \<longrightarrow> ascii_lowered n ''requests''"
    by blast
  from n(1) have "kvs = ?kvs" by simp
  with n(2) f have "n = ''Requests''" by simp
  with n(3) i have 6: "ascii_lowered ''Requests'' ''requests''" by simp
  have 7: "get_installed_packages example_host example_dm ''Requests'' = None"
  proof (cases "get_installed_packages example_host example_dm ''Requests''")
    case None
    then show ?thesis .
  next
    case (Some v)
    with t5 e e' e'' u have "no_ascii_upper ''Requests''" by blast
    with nu(2) show ?thesis by simp
  qed
  show ?thesis
    using a b c c' d d' d'' e e' e'' f i u r nu 1 2 3 4 5 6 7 by blast
qed

section \<open>Import extraction\<close>

lemma split_on_not_Nil: "split_on sep s \<noteq> []"
  by (induction s) (simp_all add: Let_def)

lemma hd_split_on: "hd (split_on sep s) = takeWhile (\<lambda>c. c \<noteq> sep) s"
  by (induction s) (simp_all add: Let_def)

lemma top_level_first_component: "top_level name = first_component name"
  by (simp add: top_level_def first_component_def hd_split_on)

lemma first_component_no_dot: "CHR ''.'' \<notin> set (first_component name)"
  by (auto simp: first_component_def dest: set_takeWhileD)

lemma nodes_of_children:
  "nodes_of n = insert n (\<Union> (nodes_of ` set (iter_child_nodes n)))"
  by (cases n) auto

lemma set_walk: "set (walk todo) = \<Union> (nodes_of ` set todo)"
proof (induction todo rule: walk.induct)
  case 1
  show ?case by simp
next
  case (2 n todo)
  have "set (walk (n # todo)) = insert n (set (walk (todo @ iter_child_nodes n)))"
    by simp
  also have "\<dots> = insert n (\<Union> (nodes_of ` set todo) \<union> \<Union> (nodes_of ` set (iter_child_nodes n)))"
    using "2.IH" by simp
  also have "\<dots> = nodes_of n \<union> \<Union> (nodes_of ` set todo)"
    using nodes_of_children[of n] by auto
  finally show ?case by simp
qed

lemma fold_insert_image: "fold (\<lambda>x acc. insert (f x) acc) xs S = S \<union> f ` set xs"
  by (induction xs arbitrary: S) auto

lemma visit_Import: "visit (Import names) S = S \<union> first_component ` set names"
  by (simp add: visit_def fold_insert_image top_level_first_component)

lemma visit_ImportFrom:
  "visit (ImportFrom module names level) S =
     (case module of None \<Rightarrow> S
      | Some m \<Rightarrow> if m = [] then S else insert (first_component m) S)"
  by (simp add: visit_def top_level_first_component split: option.splits)

lemma visit_Alias: "visit (Alias name) S = S"
  by (simp add: visit_def)

lemma visit_Other: "visit (Other children) S = S"
  by (simp add: visit_def)

lemma visit_union: "visit n S = S \<union> visit n {}"
  by (cases n) (auto simp: visit_Import visit_ImportFrom visit_Alias visit_Other split: option.splits)

lemma fold_visit: "fold visit ns S = S \<union> (\<Union>n \<in> set ns. visit n {})"
proof (induction ns arbitrary: S)
  case Nil
  show ?case by simp
next
  case (Cons n ns)
  show ?case
    unfolding fold_simps Cons.IH using visit_union[of n S] by auto
qed

lemma tree_imports_nodes: "tree_imports tree = (\<Union>n \<in> nodes_of tree. visit n {})"
  unfolding tree_imports_def fold_visit set_walk by simp

lemma mem_visit_iff:
  "m \<in> visit n {} \<longleftrightarrow>
     (\<exists>names name. n = Import names \<and> name \<in> set names \<and> m = first_component name)
     \<or> (\<exists>module names level. n = ImportFrom (Some module) names level \<and> module \<noteq> []
           \<and> m = first_component module)"
  by (cases n) (auto simp: visit_Import visit_ImportFrom visit_Alias visit_Other split: option.splits)

lemma analyze_file_union: "analyze_file h file_path S = S \<union> analyze_file h file_path {}"
proof -
  have "fold visit ns S = S \<union> fold visit ns {}" for ns
    using fold_visit[of ns S] fold_visit[of ns "{}"] by simp
  then show ?thesis
    by (simp add: analyze_file_def del: walk.simps split: option.splits)
qed

lemma analyze_file_empty:
  "analyze_file h file_path {} =
     \<Union> {tree_imports tree | content tree.
          read_file h file_path = Some content \<and> ast_parse h content = Some tree}"
  by (auto simp: analyze_file_def tree_imports_def split: option.splits)

lemma fold_analyze_file:
  "fold (analyze_file h) code_files S = S \<union> (\<Union>f \<in> set code_files. analyze_file h f {})"
proof (induction code_files arbitrary: S)
  case Nil
  show ?case by simp
next
  case (Cons f fs)
  show ?case
    unfolding fold_simps Cons.IH using analyze_file_union[of h f S] by auto
qed

lemma analyze_imports_union:
  "analyze_imports h code_files =
     \<Union> {tree_imports tree | file_path content tree. file_path \<in> set code_files
          \<and> read_file h file_path = Some content \<and> ast_parse h content = Some tree}"
  unfolding analyze_imports_def fold_analyze_file analyze_file_empty by blast

lemma analyze_file_unparseable:
  "read_file h bad = None \<or> (\<exists>content. read_file h bad = Some content \<and> ast_parse h content = None)
   \<Longrightarrow> analyze_file h bad S = S"
  by (auto simp: analyze_file_def)

lemma analyze_imports_skip:
  assumes "read_file h bad = None
    \<or> (\<exists>content. read_file h bad = Some content \<and> ast_parse h content = None)"
  shows "analyze_imports h (before @ bad # after) = analyze_imports h (before @ after)"
  using analyze_file_unparseable[OF assms] by (simp add: analyze_imports_def)

lemma mem_analyze_imports_iff:
  "m \<in> analyze_imports h code_files \<longleftrightarrow>
     (\<exists>file_path content tree n. file_path \<in> set code_files
        \<and> read_file h file_path = Some content \<and> ast_parse h content = Some tree
        \<and> n \<in> nodes_of tree
        \<and> ((\<exists>names name. n = Import names \<and> name \<in> set names \<and> m = first_component name)
           \<or> (\<exists>module names level. n = ImportFrom (Some module) names level \<and> module \<noteq> []
                 \<and> m = first_component module)))"
  unfolding analyze_imports_union tree_imports_nodes
  by (simp only: mem_visit_iff[symmetric]) blast

lemma example_analyze:
  "analyze_imports example_host [''/proj/bad.py'', ''/proj/app.py''] = {''a'', ''x''}"
  by code_simp

text \<open>
  C4. A name is in the result exactly when it is the first dot-separated component of a
  name imported by an \<open>import\<close> statement, or of the module of a from-import whose module
  is present, somewhere in a file that could be read and parsed; so no element contains a
  dot. An \<open>import\<close> of one dotted name adds exactly its first component, a from-import
  adds exactly the first component of its module and nothing for the names it imports, and
  a from-import without module adds nothing.
\<close>

theorem analyze_imports_top_level:
  "(\<forall>m. m \<in> analyze_imports h code_files \<longleftrightarrow>
       (\<exists>file_path content tree n. file_path \<in> set code_files
          \<and> read_file h file_path = Some content \<and> ast_parse h content = Some tree
          \<and> n \<in> nodes_of tree
          \<and> ((\<exists>names name. n = Import names \<and> name \<in> set names \<and> m = first_component name)
             \<or> (\<exists>module names level. n = ImportFrom (Some module) names level
                   \<and> module \<noteq> [] \<and> m = first_component module))))
   \<and> (\<forall>m \<in> analyze_imports h code_files. CHR ''.'' \<notin> set m)
   \<and> visit (Import [name]) S = insert (first_component name) S
   \<and> (module \<noteq> [] \<longrightarrow>
        visit (ImportFrom (Some module) names level) S = insert (first_component module) S)
   \<and> visit (ImportFrom None names level) S = S
   \<and> visit (Alias name) S = S
   \<and> first_component ''a.b.c'' = ''a''
   \<and> first_component ''x.y'' = ''x''"
proof -
  have "CHR ''.'' \<notin> set m" if "m \<in> analyze_imports h code_files" for m
    using that first_component_no_dot unfolding mem_analyze_imports_iff by blast
  moreover have "visit (Import [name]) S = insert (first_component name) S"
    by (simp add: visit_Import)
  moreover have "module \<noteq> [] \<longrightarrow>
      visit (ImportFrom (Some module) names level) S = insert (first_component module) S"
    by (simp add: visit_ImportFrom)
  moreover have "visit (ImportFrom None names level) S = S"
    by (simp add: visit_ImportFrom)
  moreover have "first_component ''a.b.c'' = ''a''" "first_component ''x.y'' = ''x''"
    by (simp_all add: first_component_def)
  ultimately show ?thesis
    using mem_analyze_imports_iff[of _ h code_files] visit_Alias[of name S] by blast
qed

theorem analyze_imports_top_level_witness:
  "read_file example_host ''/proj/app.py'' = Some example_source
   \<and> ast_parse example_host example_source = Some example_tree
   \<and> Import [''a.b.c''] \<in> nodes_of example_tree
   \<and> ImportFrom (Some ''x.y'') [''z''] 0 \<in> nodes_of example_tree
   \<and> ImportFrom None [''w''] 1 \<in> nodes_of example_tree
   \<and> ''a'' \<in> analyze_imports example_host [''/proj/app.py'']
   \<and> ''x'' \<in> analyze_imports example_host [''/proj/app.py'']
   \<and> analyze_imports example_host [''/proj/app.py''] = {''a'', ''x''}
   \<and> CHR ''.'' \<notin> set ''a'' \<and> CHR ''.'' \<notin> set ''x''
   \<and> visit (ImportFrom (Some ''x.y'') [''z''] 0) {} = {''x''}"
proof -
  note t = analyze_imports_top_level [of example_host "[''/proj/app.py'']" "''a.b.c''" "{}"
      "''x.y''" "[''z'']" 0]
  have r: "read_file example_host ''/proj/app.py'' = Some example_source"
    by (simp add: example_host_def)
  have p: "ast_parse example_host example_source = Some example_tree"
    by (simp add: example_host_def)
  have n1: "Import [''a.b.c''] \<in> nodes_of example_tree"
    by (simp add: example_tree_def)
  have n2: "ImportFrom (Some ''x.y'') [''z''] 0 \<in> nodes_of example_tree"
    by (simp add: example_tree_def)
  have n3: "ImportFrom None [''w''] 1 \<in> nodes_of example_tree"
    by (simp add: example_tree_def)
  have e: "analyze_imports example_host [''/proj/app.py''] = {''a'', ''x''}"
    by code_simp
  have a: "''a'' \<in> analyze_imports example_host [''/proj/app.py'']"
    using t r p n1 by (metis list.set_intros(1))
  have x: "''x'' \<in> analyze_imports example_host [''/proj/app.py'']"
    using t r p n2 by (metis list.set_intros(1) list.distinct(1))
  have d: "CHR ''.'' \<notin> set ''a''" "CHR ''.'' \<notin> set ''x''"
    using t a x by blast+
  have v: "visit (ImportFrom (Some ''x.y'') [''z''] 0) {} = {''x''}"
    using t by simp
  show ?thesis
    using r p n1 n2 n3 e a x d v by blast
qed

text \<open>
  C6. The result is the union of the names of the files that could be read and parsed. A
  file that cannot be read or parsed adds nothing and removes nothing: the result is the
  same as without it, whatever comes before and after it in the list. The function returns
  a set for every list of files; no file makes it raise.
\<close>

theorem analyze_imports_skips_unparseable:
  "analyze_imports h code_files =
     \<Union> {tree_imports tree | file_path content tree. file_path \<in> set code_files
          \<and> read_file h file_path = Some content \<and> ast_parse h content = Some tree}
   \<and> (read_file h bad = None
        \<or> (\<exists>content. read_file h bad = Some content \<and> ast_parse h content = None) \<longrightarrow>
      analyze_imports h (before @ bad # after) = analyze_imports h (before @ after))"
  using analyze_imports_union[of h code_files] analyze_imports_skip[of h bad before after]
  by blast

theorem analyze_imports_skips_unparseable_witness:
  "read_file example_host ''/proj/bad.py'' = Some ''def (''
   \<and> ast_parse example_host ''def ('' = None
   \<and> analyze_imports example_host ([] @ ''/proj/bad.py'' # [''/proj/app.py''])
       = analyze_imports example_host ([] @ [''/proj/app.py''])
   \<and> analyze_imports example_host [''/proj/bad.py'', ''/proj/app.py''] = {''a'', ''x''}"
proof -
  have r: "read_file example_host ''/proj/bad.py'' = Some ''def (''"
    by (simp add: example_host_def)
  have p: "ast_parse example_host ''def ('' = None"
    by (simp add: example_host_def example_source_def)
  have e: "analyze_imports example_host [''/proj/bad.py'', ''/proj/app.py''] = {''a'', ''x''}"
    by code_simp
  show ?thesis
    using analyze_imports_skips_unparseable
      [of example_host "[]" "''/proj/bad.py''" "[]" "[''/proj/app.py'']"] r p e
    by blast
qed

section \<open>Environments\<close>

lemma probe_first:
  "\<forall>c' \<in> set pre. \<not> qualifies h fs root c' \<Longrightarrow> qualifies h fs root c \<Longrightarrow>
   probe h fs root (pre @ c # post)
     = Some (path_join h root c, venv_python h (path_join h root c))"
  by (induction pre) (auto simp: qualifies_def Let_def)

lemma probe_None: "\<forall>c \<in> set cs. \<not> qualifies h fs root c \<Longrightarrow> probe h fs root cs = None"
  by (induction cs) (auto simp: qualifies_def Let_def)

lemma probe_NoneD: "probe h fs root cs = None \<Longrightarrow> \<forall>c \<in> set cs. \<not> qualifies h fs root c"
  by (induction cs) (auto simp: qualifies_def Let_def split: if_splits)

lemma probe_Some:
  "probe h fs root cs = Some (v, p) \<Longrightarrow>
   \<exists>c \<in> set cs. qualifies h fs root c \<and> v = path_join h root c \<and> p = venv_python h v"
  by (induction cs) (auto simp: qualifies_def Let_def split: if_splits)

lemma detect_venv_first:
  assumes "project_path dm = Some root" "root \<noteq> []"
    and "venv_candidates = pre @ c # post"
    and "\<forall>c' \<in> set pre. \<not> qualifies h fs root c'"
    and "qualifies h fs root c"
  shows "detect_venv h fs dm =
    (True, dm\<lparr>venv_path := Some (path_join h root c),
              python_executable := venv_python h (path_join h root c)\<rparr>)"
  using assms(1,2) probe_first[OF assms(4,5), of post]
  by (simp add: detect_venv_def assms(3))

lemma detect_venv_none:
  assumes "project_path dm = Some root" "root \<noteq> []"
    and "\<forall>c \<in> set venv_candidates. \<not> qualifies h fs root c"
  shows "detect_venv h fs dm =
    (False, dm\<lparr>venv_path := None, python_executable := sys_executable h\<rparr>)"
  using assms(1,2) probe_None[OF assms(3)]
  by (simp add: detect_venv_def)

lemma detect_venv_some:
  assumes "project_path dm = Some root" "root \<noteq> []"
    and "c0 \<in> set venv_candidates" "qualifies h fs root c0"
  shows "\<exists>c \<in> set venv_candidates. qualifies h fs root c
    \<and> detect_venv h fs dm =
        (True, dm\<lparr>venv_path := Some (path_join h root c),
                  python_executable := venv_python h (path_join h root c)\<rparr>)"
proof (cases "probe h fs root venv_candidates")
  case None
  from probe_NoneD[OF None] assms(3,4) show ?thesis by blast
next
  case (Some vp)
  obtain v p where vp: "vp = (v, p)" by (cases vp)
  from probe_Some[of h fs root venv_candidates v p] Some vp
  obtain c where c: "c \<in> set venv_candidates" "qualifies h fs root c"
    "v = path_join h root c" "p = venv_python h v" by auto
  have "detect_venv h fs dm =
        (True, dm\<lparr>venv_path := Some (path_join h root c),
                  python_executable := venv_python h (path_join h root c)\<rparr>)"
    using assms(1,2) Some vp c(3,4) by (simp add: detect_venv_def)
  with c(1,2) show ?thesis by blast
qed

lemma venv_first_candidate: "venv_candidates = [] @ ''venv'' # [''env'', ''.venv'', ''.env'']"
  by (simp add: venv_candidates_def)

lemma detect_venv_venv:
  assumes "project_path dm = Some root" "root \<noteq> []" "qualifies h fs root ''venv''"
  shows "detect_venv h fs dm =
    (True, dm\<lparr>venv_path := Some (path_join h root ''venv''),
              python_executable := venv_python h (path_join h root ''venv'')\<rparr>)"
  by (rule detect_venv_first[OF assms(1,2) venv_first_candidate _ assms(3)]) simp

lemmas example_path_defs =
  example_host_def example_fs_def bare_fs_def example_dm_def posix_join_def venv_python_def
  qualifies_def

text \<open>
  C7. For a manager with a project root: when some candidate qualifies, \<open>detect_venv\<close>
  returns True and the environment is the directory of a qualifying candidate, with the
  interpreter inside that directory as \<open>python_executable\<close>; a qualifying \<open>venv\<close> is the
  one activated, and so is a candidate that is the only one to qualify. The interpreter is \<open>Scripts/python.exe\<close> on Windows and \<open>bin/python\<close>
  elsewhere. When no candidate qualifies, \<open>venv_path\<close> is None and \<open>python_executable\<close>
  is the interpreter of the host.
\<close>

theorem detect_venv_activates:
  assumes "project_path dm = Some root" and "root \<noteq> []"
  shows "((\<exists>c \<in> set venv_candidates. qualifies h fs root c) \<longrightarrow>
            (\<exists>c \<in> set venv_candidates. qualifies h fs root c
               \<and> detect_venv h fs dm =
                   (True, dm\<lparr>venv_path := Some (path_join h root c),
                             python_executable := venv_python h (path_join h root c)\<rparr>)))
    \<and> (qualifies h fs root ''venv'' \<longrightarrow>
          detect_venv h fs dm =
            (True, dm\<lparr>venv_path := Some (path_join h root ''venv''),
                      python_executable := venv_python h (path_join h root ''venv'')\<rparr>))
    \<and> (only \<in> set venv_candidates \<and> qualifies h fs root only
          \<and> (\<forall>c \<in> set venv_candidates. qualifies h fs root c \<longrightarrow> c = only) \<longrightarrow>
          detect_venv h fs dm =
            (True, dm\<lparr>venv_path := Some (path_join h root only),
                      python_executable := venv_python h (path_join h root only)\<rparr>))
    \<and> ((\<forall>c \<in> set venv_candidates. \<not> qualifies h fs root c) \<longrightarrow>
          detect_venv h fs dm =
            (False, dm\<lparr>venv_path := None, python_executable := sys_executable h\<rparr>))
    \<and> (os_name h = ''nt'' \<longrightarrow>
          venv_python h v = path_join h (path_join h v ''Scripts'') ''python.exe'')
    \<and> (os_name h \<noteq> ''nt'' \<longrightarrow>
          venv_python h v = path_join h (path_join h v ''bin'') ''python'')"
proof -
  have "\<exists>c \<in> set venv_candidates. qualifies h fs root c
          \<and> detect_venv h fs dm =
              (True, dm\<lparr>venv_path := Some (path_join h root c),
                        python_executable := venv_python h (path_join h root c)\<rparr>)"
    if "\<exists>c \<in> set venv_candidates. qualifies h fs root c"
    using that detect_venv_some[OF assms] by blast
  moreover have "detect_venv h fs dm =
            (True, dm\<lparr>venv_path := Some (path_join h root ''venv''),
                      python_executable := venv_python h (path_join h root ''venv'')\<rparr>)"
    if "qualifies h fs root ''venv''"
    using that by (rule detect_venv_venv[OF assms])
  moreover have "detect_venv h fs dm =
            (True, dm\<lparr>venv_path := Some (path_join h root only),
                      python_executable := venv_python h (path_join h root only)\<rparr>)"
    if "only \<in> set venv_candidates \<and> qualifies h fs root only
          \<and> (\<forall>c \<in> set venv_candidates. qualifies h fs root c \<longrightarrow> c = only)"
  proof -
    from that detect_venv_some[OF assms, of only h fs] obtain c where
      "c \<in> set venv_candidates" "qualifies h fs root c"
      "detect_venv h fs dm =
        (True, dm\<lparr>venv_path := Some (path_join h root c),
                  python_executable := venv_python h (path_join h root c)\<rparr>)"
      by blast
    moreover from this(1,2) that have "c = only" by blast
    ultimately show ?thesis by simp
  qed
  moreover have "detect_venv h fs dm =
            (False, dm\<lparr>venv_path := None, python_executable := sys_executable h\<rparr>)"
    if "\<forall>c \<in> set venv_candidates. \<not> qualifies h fs root c"
    using that by (rule detect_venv_none[OF assms])
  moreover have "os_name h = ''nt'' \<longrightarrow>
          venv_python h v = path_join h (path_join h v ''Scripts'') ''python.exe''"
    by (simp add: venv_python_def)
  moreover have "os_name h \<noteq> ''nt'' \<longrightarrow>
          venv_python h v = path_join h (path_join h v ''bin'') ''python''"
    by (simp add: venv_python_def)
  ultimately show ?thesis by blast
qed

theorem detect_venv_activates_witness:
  "project_path example_dm = Some ''/proj'' \<and> ''/proj'' \<noteq> []
   \<and> qualifies example_host example_fs ''/proj'' ''venv''
   \<and> detect_venv example_host example_fs example_dm =
       (True, example_dm\<lparr>venv_path := Some ''/proj/venv'',
                          python_executable := ''/proj/venv/bin/python''\<rparr>)
   \<and> \<not> (\<exists>c \<in> set venv_candidates. qualifies example_host bare_fs ''/proj'' c)
   \<and> detect_venv example_host bare_fs stale_dm =
       (False, stale_dm\<lparr>venv_path := None, python_executable := ''/usr/bin/python3''\<rparr>)"
proof -
  have p: "project_path example_dm = Some ''/proj''" "project_path stale_dm = Some ''/proj''"
    by (simp_all add: example_dm_def stale_dm_def)
  have n: "''/proj'' \<noteq> []"
    by simp
  have q: "qualifies example_host example_fs ''/proj'' ''venv''"
    by (simp add: example_path_defs)
  have b: "\<not> (\<exists>c \<in> set venv_candidates. qualifies example_host bare_fs ''/proj'' c)"
    by (simp add: example_path_defs venv_candidates_def)
  have j: "path_join example_host ''/proj'' ''venv'' = ''/proj/venv''"
    "venv_python example_host ''/proj/venv'' = ''/proj/venv/bin/python''"
    "sys_executable example_host = ''/usr/bin/python3''"
    by (simp_all add: example_path_defs)
  show ?thesis
    using detect_venv_activates [OF p(1) n, of example_host example_fs]
      detect_venv_activates [OF p(2) n, of example_host bare_fs]
      p n q b j by simp
qed

text \<open>
  C10. The candidates are \<open>venv\<close>, \<open>env\<close>, \<open>.venv\<close>, \<open>.env\<close> in this order, and the
  environment activated is the first of them that qualifies: a candidate is activated when
  it qualifies and no candidate before it does. When \<open>venv\<close> and \<open>env\<close> both qualify,
  \<open>venv\<close> is selected.
\<close>

theorem detect_venv_order:
  "venv_candidates = [''venv'', ''env'', ''.venv'', ''.env'']
   \<and> (project_path dm = Some root \<and> root \<noteq> [] \<and> venv_candidates = pre @ c # post
        \<and> (\<forall>c' \<in> set pre. \<not> qualifies h fs root c') \<and> qualifies h fs root c \<longrightarrow>
      detect_venv h fs dm =
        (True, dm\<lparr>venv_path := Some (path_join h root c),
                  python_executable := venv_python h (path_join h root c)\<rparr>))
   \<and> (project_path dm = Some root \<and> root \<noteq> []
        \<and> qualifies h fs root ''venv'' \<and> qualifies h fs root ''env'' \<longrightarrow>
      venv_path (snd (detect_venv h fs dm)) = Some (path_join h root ''venv'')
      \<and> python_executable (snd (detect_venv h fs dm))
          = venv_python h (path_join h root ''venv''))"
proof -
  have "detect_venv h fs dm =
        (True, dm\<lparr>venv_path := Some (path_join h root c),
                  python_executable := venv_python h (path_join h root c)\<rparr>)"
    if "project_path dm = Some root \<and> root \<noteq> [] \<and> venv_candidates = pre @ c # post
        \<and> (\<forall>c' \<in> set pre. \<not> qualifies h fs root c') \<and> qualifies h fs root c"
    using that detect_venv_first[of dm root pre c post h fs] by blast
  moreover have "venv_path (snd (detect_venv h fs dm)) = Some (path_join h root ''venv'')
      \<and> python_executable (snd (detect_venv h fs dm))
          = venv_python h (path_join h root ''venv'')"
    if "project_path dm = Some root \<and> root \<noteq> []
        \<and> qualifies h fs root ''venv'' \<and> qualifies h fs root ''env''"
    using that detect_venv_venv[of dm root h fs] by simp
  ultimately show ?thesis
    by (simp add: venv_candidates_def)
qed

theorem detect_venv_order_witness:
  "project_path example_dm = Some ''/proj'' \<and> ''/proj'' \<noteq> []
   \<and> qualifies example_host example_fs ''/proj'' ''venv''
   \<and> qualifies example_host example_fs ''/proj'' ''env''
   \<and> venv_path (snd (detect_venv example_host example_fs example_dm)) = Some ''/proj/venv''
   \<and> python_executable (snd (detect_venv example_host example_fs example_dm))
       = ''/proj/venv/bin/python''
   \<and> venv_candidates = [''venv''] @ ''env'' # [''.venv'', ''.env'']
   \<and> \<not> qualifies example_host
          (example_fs\<lparr>isdir := (isdir example_fs)(''/proj/venv'' := False)\<rparr>) ''/proj'' ''venv''
   \<and> qualifies example_host
       (example_fs\<lparr>isdir := (isdir example_fs)(''/proj/venv'' := False)\<rparr>) ''/proj'' ''env''
   \<and> detect_venv example_host
       (example_fs\<lparr>isdir := (isdir example_fs)(''/proj/venv'' := False)\<rparr>) example_dm =
       (True, example_dm\<lparr>venv_path := Some ''/proj/env'',
                          python_executable := ''/proj/env/bin/python''\<rparr>)"
proof -
  let ?fs = "example_fs\<lparr>isdir := (isdir example_fs)(''/proj/venv'' := False)\<rparr>"
  have p: "project_path example_dm = Some ''/proj''"
    by (simp add: example_dm_def)
  have n: "''/proj'' \<noteq> []"
    by simp
  have q: "qualifies example_host example_fs ''/proj'' ''venv''"
    "qualifies example_host example_fs ''/proj'' ''env''"
    by (simp_all add: example_path_defs)
  have s: "venv_candidates = [''venv''] @ ''env'' # [''.venv'', ''.env'']"
    by (simp add: venv_candidates_def)
  have f: "\<not> qualifies example_host ?fs ''/proj'' ''venv''"
    "qualifies example_host ?fs ''/proj'' ''env''"
    by (simp_all add: example_path_defs)
  have j: "path_join example_host ''/proj'' ''venv'' = ''/proj/venv''"
    "venv_python example_host ''/proj/venv'' = ''/proj/venv/bin/python''"
    "path_join example_host ''/proj'' ''env'' = ''/proj/env''"
    "venv_python example_host ''/proj/env'' = ''/proj/env/bin/python''"
    by (simp_all add: example_path_defs)
  have 1: "venv_path (snd (detect_venv example_host example_fs example_dm)) = Some ''/proj/venv''
      \<and> python_executable (snd (detect_venv example_host example_fs example_dm))
          = ''/proj/venv/bin/python''"
    using detect_venv_order [of example_dm "''/proj''" "[]" "''venv''" "[]" example_host
        example_fs] p n q j by simp
  have 2: "detect_venv example_host ?fs example_dm =
       (True, example_dm\<lparr>venv_path := Some ''/proj/env'',
                          python_executable := ''/proj/env/bin/python''\<rparr>)"
    using detect_venv_order [of example_dm "''/proj''" "[''venv'']" "''env''"
        "[''.venv'', ''.env'']" example_host ?fs] p n s f j by simp
  show ?thesis
    using p n q s f 1 2 by blast
qed

lemma create_venv_no_project:
  "project_path dm = None \<or> project_path dm = Some [] \<Longrightarrow>
   create_venv h fs dm venv_name = (Inl (Exception ''No project path set''), dm, fs)"
  by (auto simp: create_venv_def)

lemma create_venv_exists:
  "project_path dm = Some root \<Longrightarrow> root \<noteq> [] \<Longrightarrow> exists fs (path_join h root venv_name) \<Longrightarrow>
   create_venv h fs dm venv_name = (Inl (already_exists venv_name), dm, fs)"
  by (simp add: create_venv_def)

lemma create_venv_success:
  assumes "create_venv h fs dm venv_name = (Inr True, dm1, fs1)"
  shows "\<exists>root. project_path dm = Some root \<and> root \<noteq> []
    \<and> \<not> exists fs (path_join h root venv_name)
    \<and> venv_create h fs (path_join h root venv_name) = (None, fs1)
    \<and> dm1 = dm\<lparr>venv_path := Some (path_join h root venv_name),
                python_executable := venv_python h (path_join h root venv_name)\<rparr>"
  using assms
  by (auto simp: create_venv_def Let_def split: option.splits if_splits prod.splits)

lemma create_venv_twice:
  assumes "venv_create_makes_path h"
    and "create_venv h fs dm venv_name = (Inr True, dm1, fs1)"
  shows "create_venv h fs1 dm1 venv_name = (Inl (already_exists venv_name), dm1, fs1)"
proof -
  from create_venv_success[OF assms(2)] obtain root where
    r: "project_path dm = Some root" "root \<noteq> []"
    and c: "venv_create h fs (path_join h root venv_name) = (None, fs1)"
    and d: "dm1 = dm\<lparr>venv_path := Some (path_join h root venv_name),
                python_executable := venv_python h (path_join h root venv_name)\<rparr>"
    by blast
  from assms(1) c have "exists fs1 (path_join h root venv_name)"
    unfolding venv_create_makes_path_def by blast
  moreover from r(1) d have "project_path dm1 = Some root"
    by simp
  ultimately show ?thesis
    using r(2) by (rule_tac create_venv_exists) auto
qed

text \<open>
  C8. \<open>create_venv\<close> raises, and leaves the manager and the file system as they were,
  when the project path is None or empty and when the path of the new environment exists.
  When \<open>venv.create\<close> leaves the directory it was asked for, a second call with the name
  of a first, successful call raises, and the manager keeps the \<open>venv_path\<close> and
  \<open>python_executable\<close> the first call gave it.
\<close>

theorem create_venv_conflict:
  "(project_path dm = None \<or> project_path dm = Some [] \<longrightarrow>
      create_venv h fs dm venv_name = (Inl (Exception ''No project path set''), dm, fs))
   \<and> (project_path dm = Some root \<and> root \<noteq> [] \<and> exists fs (path_join h root venv_name) \<longrightarrow>
      create_venv h fs dm venv_name = (Inl (already_exists venv_name), dm, fs))
   \<and> (venv_create_makes_path h \<and> create_venv h fs dm venv_name = (Inr True, dm1, fs1) \<longrightarrow>
      create_venv h fs1 dm1 venv_name = (Inl (already_exists venv_name), dm1, fs1))"
  using create_venv_no_project[of dm h fs venv_name]
    create_venv_exists[of dm root fs h venv_name]
    create_venv_twice[of h fs dm venv_name dm1 fs1]
  by blast

theorem create_venv_conflict_witness:
  "project_path (example_dm\<lparr>project_path := None\<rparr>) = None
   \<and> create_venv example_host bare_fs (example_dm\<lparr>project_path := None\<rparr>) ''venv''
       = (Inl (Exception ''No project path set''), example_dm\<lparr>project_path := None\<rparr>, bare_fs)
   \<and> project_path example_dm = Some ''/proj'' \<and> ''/proj'' \<noteq> []
   \<and> exists example_fs (path_join example_host ''/proj'' ''venv'')
   \<and> create_venv example_host example_fs example_dm ''venv''
       = (Inl (already_exists ''venv''), example_dm, example_fs)
   \<and> venv_create_makes_path example_host
   \<and> create_venv example_host bare_fs example_dm ''venv'' =
       (Inr True,
        example_dm\<lparr>venv_path := Some ''/proj/venv'', python_executable := ''/proj/venv/bin/python''\<rparr>,
        bare_fs\<lparr>isdir := (isdir bare_fs)(''/proj/venv'' := True),
                exists := (exists bare_fs)(''/proj/venv'' := True)\<rparr>)
   \<and> create_venv example_host
        (bare_fs\<lparr>isdir := (isdir bare_fs)(''/proj/venv'' := True),
                 exists := (exists bare_fs)(''/proj/venv'' := True)\<rparr>)
        (example_dm\<lparr>venv_path := Some ''/proj/venv'', python_executable := ''/proj/venv/bin/python''\<rparr>)
        ''venv'' =
       (Inl (already_exists ''venv''),
        example_dm\<lparr>venv_path := Some ''/proj/venv'', python_executable := ''/proj/venv/bin/python''\<rparr>,
        bare_fs\<lparr>isdir := (isdir bare_fs)(''/proj/venv'' := True),
                exists := (exists bare_fs)(''/proj/venv'' := True)\<rparr>)"
proof -
  let ?dm1 = "example_dm\<lparr>venv_path := Some ''/proj/venv'',
      python_executable := ''/proj/venv/bin/python''\<rparr>"
  let ?fs1 = "bare_fs\<lparr>isdir := (isdir bare_fs)(''/proj/venv'' := True),
      exists := (exists bare_fs)(''/proj/venv'' := True)\<rparr>"
  have a: "project_path (example_dm\<lparr>project_path := None\<rparr>) = None"
    by simp
  have b: "project_path example_dm = Some ''/proj''" "''/proj'' \<noteq> []"
    by (simp_all add: example_dm_def)
  have c: "exists example_fs (path_join example_host ''/proj'' ''venv'')"
    by (simp add: example_path_defs)
  have m: "venv_create_makes_path example_host"
    by (simp add: venv_create_makes_path_def example_host_def example_venv_create_def)
  have f: "create_venv example_host bare_fs example_dm ''venv'' = (Inr True, ?dm1, ?fs1)"
    by (simp add: create_venv_def example_path_defs example_venv_create_def Let_def)
  show ?thesis
    using create_venv_conflict [of "example_dm\<lparr>project_path := None\<rparr>" example_host bare_fs
        "''venv''" "''/proj''" ?dm1 ?fs1]
      create_venv_conflict [of example_dm example_host example_fs "''venv''" "''/proj''" ?dm1 ?fs1]
      create_venv_conflict [of example_dm example_host bare_fs "''venv''" "''/proj''" ?dm1 ?fs1]
      a b c m f by simp
qed

section \<open>Installation\<close>

lemma install_packages_empty: "install_packages h dm [] output_callback s = (Inr True, s)"
  by (simp add: install_packages_def)

lemma install_packages_with_sink:
  "packages \<noteq> [] \<Longrightarrow>
   install_packages h dm packages (Some cb) s =
     (case subprocess_Popen h ([python_executable dm, ''-m'', ''pip'', ''install''] @ packages) of
        PopenFault \<Rightarrow> (Inl OSError, s)
      | Streamed lines rc \<Rightarrow> (Inr (rc = 0), fold cb lines s))"
  by (simp add: install_packages_def install_packages_try_def split: popen_result.splits)

lemma install_packages_without_sink:
  "packages \<noteq> [] \<Longrightarrow>
   install_packages h dm packages None s =
     (case subprocess_run h ([python_executable dm, ''-m'', ''pip'', ''install''] @ packages) of
        RunFault \<Rightarrow> (Inl OSError, s)
      | Completed rc out err \<Rightarrow> (Inr (rc = 0), s))"
  by (simp add: install_packages_def install_packages_try_def split: run_result.splits)

text \<open>
  C2 does not hold of the code. A package manager that starts and exits with a non-zero
  code gives False, as the two lemmas above show. But when the interpreter of the manager
  cannot be started (here the environment was removed after it had been detected),
  \<open>Popen\<close> and \<open>run\<close> raise OSError, the only handler is for CalledProcessError, and the
  exception leaves \<open>install_packages\<close>, with a sink and without one. Nothing reaches the
  sink.
\<close>

theorem install_packages_spawn_fault_raises:
  "install_packages example_host stale_dm [''numpy''] (Some (\<lambda>line seen. seen @ [line])) []
     = (Inl OSError, [])
   \<and> install_packages example_host stale_dm [''numpy''] (None :: (string \<Rightarrow> string list \<Rightarrow> string list) option) []
     = (Inl OSError, [])"
  by (simp add: install_packages_def install_packages_try_def example_host_def example_Popen_def
      example_run_def stale_dm_def)

lemma example_install_fails:
  "install_packages example_host example_dm [''nosuchpkg''] (Some (\<lambda>line seen. seen @ [line])) []
     = (Inr False, [''ERROR: No matching distribution found'' @ [CHR 0x0A]])"
  by (simp add: install_packages_def install_packages_try_def example_host_def example_Popen_def
      example_dm_def)

end
